theory Spec2Isabelle
  imports Main "HOL-Library.Word"
begin

unbundle bit_operations_syntax

section \<open>The xHCI driver of grub-core/bus/usb/xhci.c\<close>

text \<open>
  The embedding follows the code that the C compiler sees. Bodies that the source keeps
  inside \<^verbatim>\<open>#if 0\<close> blocks or behind \<^verbatim>\<open>//\<close> are not part of the program and are not
  modelled; where a function is reduced to a stub by them, the stub is what is embedded.

  Pointers are 32-bit words (the driver maps 32-bit register bases only, see
  \<^verbatim>\<open>grub_xhci_pci_iter\<close>); \<^verbatim>\<open>unsigned int\<close>, \<^verbatim>\<open>int\<close> and \<^verbatim>\<open>grub_uint32_t\<close> are
  32-bit words, \<^verbatim>\<open>grub_uint16_t\<close> and \<^verbatim>\<open>grub_uint8_t\<close> are 16- and 8-bit words.
\<close>

type_synonym addr = "32 word"
type_synonym memory = "addr \<Rightarrow> 8 word"

subsection \<open>Types declared in headers outside the driver\<close>

text \<open>
  \<^verbatim>\<open>grub_usb_err_t\<close>, \<^verbatim>\<open>grub_usb_speed_t\<close> and \<^verbatim>\<open>grub_err_t\<close> come from
  \<^verbatim>\<open>grub/usb.h\<close> and \<^verbatim>\<open>grub/err.h\<close>. Only the enumerators that the driver's text names
  are listed.
\<close>

datatype grub_usb_err_t =
    GRUB_USB_ERR_NONE
  | GRUB_USB_ERR_WAIT
  | GRUB_USB_ERR_INTERNAL
  | GRUB_USB_ERR_TIMEOUT
  | GRUB_USB_ERR_UNRECOVERABLE
  | GRUB_USB_ERR_BADDEVICE

datatype grub_usb_speed_t =
    GRUB_USB_SPEED_NONE
  | GRUB_USB_SPEED_LOW
  | GRUB_USB_SPEED_FULL
  | GRUB_USB_SPEED_HIGH
  | GRUB_USB_SPEED_SUPER

datatype grub_err_t = GRUB_ERR_NONE | GRUB_ERR_TIMEOUT

text \<open>\<^verbatim>\<open>grub_pci_device_t\<close>: the driver prints its bus, device and function numbers.\<close>

record grub_pci_device =
  bus :: nat
  device :: nat
  func :: nat

text \<open>
  \<^verbatim>\<open>struct grub_usb_transfer\<close> (\<^verbatim>\<open>grub/usbtrans.h\<close>): the driver reads one field of it.
\<close>

record grub_usb_transfer =
  controller_data :: addr

subsection \<open>Register constants of xhci.c\<close>

definition GRUB_XHCI_OPER_USBCMD :: "32 word" where "GRUB_XHCI_OPER_USBCMD = 0x00"
definition GRUB_XHCI_OPER_USBSTS :: "32 word" where "GRUB_XHCI_OPER_USBSTS = 0x04"

definition GRUB_XHCI_OPER_USBCMD_RUNSTOP :: "32 word" where
  "GRUB_XHCI_OPER_USBCMD_RUNSTOP = push_bit 0 1"

definition GRUB_XHCI_USBSTS_HCH :: "32 word" where
  "GRUB_XHCI_USBSTS_HCH = push_bit 0 1"

definition GRUB_XHCI_ADDR_MEM_MASK :: "32 word" where
  "GRUB_XHCI_ADDR_MEM_MASK = NOT 0xff"

definition GRUB_XHCI_USBLEGSUP_BIOS_OWNED :: "32 word" where
  "GRUB_XHCI_USBLEGSUP_BIOS_OWNED = push_bit 16 1"

definition GRUB_XHCI_USBLEGSUP_OS_OWNED :: "32 word" where
  "GRUB_XHCI_USBLEGSUP_OS_OWNED = push_bit 24 1"

definition GRUB_XHCI_PORTSC_CCS :: "32 word" where "GRUB_XHCI_PORTSC_CCS = push_bit 0 1"
definition GRUB_XHCI_PORTSC_PED :: "32 word" where "GRUB_XHCI_PORTSC_PED = push_bit 1 1"
definition GRUB_XHCI_PORT_ENABLED :: "32 word" where "GRUB_XHCI_PORT_ENABLED = push_bit 2 1"
definition GRUB_XHCI_PORT_RESET :: "32 word" where "GRUB_XHCI_PORT_RESET = push_bit 8 1"
definition GRUB_XHCI_PORT_OWNER :: "32 word" where "GRUB_XHCI_PORT_OWNER = push_bit 13 1"

definition DBOFF_MASK :: "32 word" where "DBOFF_MASK = NOT 0x3"
definition RTSOFF_MASK :: "32 word" where "RTSOFF_MASK = NOT 0x1f"

text \<open>\<^verbatim>\<open>enum xhci_portrs_type\<close>: the byte offset of a register inside a port register set.\<close>

datatype xhci_portrs_type = PORTSC | PORTPMSC | PORTLI | PORTHLPMC

fun portrs_offset :: "xhci_portrs_type \<Rightarrow> 32 word" where
  "portrs_offset PORTSC = 0"
| "portrs_offset PORTPMSC = 4"
| "portrs_offset PORTLI = 8"
| "portrs_offset PORTHLPMC = 12"

subsection \<open>struct grub_xhci\<close>

text \<open>
  The \<^verbatim>\<open>next\<close> pointer of the struct is represented by the position of the controller in
  the registry list \<open>xhci_list\<close> of the machine state below.
\<close>

record grub_xhci =
  cap_regs :: addr
  oper_regs :: addr
  run_regs :: addr
  db_regs :: addr
  max_device_slots :: "8 word"
  max_ports :: "8 word"
  regs :: addr
  cap :: addr
  oper :: addr
  runtime :: addr
  slots :: "32 word"
  ports :: "32 word"
  iobase_cap :: addr
  iobase_oper :: addr

subsection \<open>The platform: what the driver takes from the rest of GRUB\<close>

text \<open>
  The constants of \<^verbatim>\<open>grub/pci.h\<close>, the numeric value of an error enumerator, the byte order
  of the host, the result of \<^verbatim>\<open>grub_pci_device_map_range\<close> and the behaviour of
  \<^verbatim>\<open>grub_malloc\<close> (the address of the new block, 0 for \<^verbatim>\<open>NULL\<close>, and the uninitialised
  contents of a new block) are not in the driver's files. They are parameters.
\<close>

record platform =
  big_endian :: bool
  GRUB_PCI_REG_CLASS :: addr
  GRUB_PCI_REG_ADDRESS_REG0 :: addr
  GRUB_PCI_REG_ADDRESS_REG1 :: addr
  GRUB_PCI_REG_COMMAND :: addr
  GRUB_PCI_ADDR_MEM_TYPE_MASK :: "32 word"
  GRUB_PCI_ADDR_MEM_TYPE_32 :: "32 word"
  GRUB_PCI_ADDR_MEM_MASK :: "32 word"
  GRUB_PCI_COMMAND_MEM_ENABLED :: "16 word"
  GRUB_PCI_COMMAND_BUS_MASTER :: "16 word"
  usb_err_value :: "grub_usb_err_t \<Rightarrow> 32 word"
  grub_pci_device_map_range :: "32 word \<Rightarrow> addr"
  grub_malloc :: "addr list \<Rightarrow> addr"
  uninitialised :: grub_xhci

subsection \<open>Machine state\<close>

text \<open>
  An access to the mapped register window is recorded with its width in bytes and its
  address. The state holds the device memory, the trace of accesses in program order, the
  millisecond clock, the PCI configuration space of each device, the \<^verbatim>\<open>static int state\<close>
  of \<^verbatim>\<open>grub_xhci_detect_dev\<close>, \<^verbatim>\<open>grub_errno\<close>, the blocks handed out by \<^verbatim>\<open>grub_malloc\<close>
  and not freed, and the registry \<^verbatim>\<open>xhci_list\<close> (head first; each node with its address).
\<close>

datatype access = Load nat addr | Store nat addr

record machine =
  mem :: memory
  trace :: "access list"
  clock :: nat
  pci_conf :: "grub_pci_device \<Rightarrow> memory"
  detect_dev_state :: "32 word"
  grub_errno :: grub_err_t
  allocated :: "addr list"
  xhci_list :: "(addr \<times> grub_xhci) list"

subsection \<open>Bytes and byte order\<close>

text \<open>The value of two and of four consecutive bytes, least significant byte first.\<close>

definition bytes16 :: "8 word \<Rightarrow> 8 word \<Rightarrow> 16 word" where
  "bytes16 b0 b1 = ucast b0 OR push_bit 8 (ucast b1)"

definition bytes32 :: "8 word \<Rightarrow> 8 word \<Rightarrow> 8 word \<Rightarrow> 8 word \<Rightarrow> 32 word" where
  "bytes32 b0 b1 b2 b3 =
     ucast b0 OR push_bit 8 (ucast b1) OR push_bit 16 (ucast b2) OR push_bit 24 (ucast b3)"

definition le16 :: "memory \<Rightarrow> addr \<Rightarrow> 16 word" where
  "le16 m a = bytes16 (m a) (m (a + 1))"

definition le32 :: "memory \<Rightarrow> addr \<Rightarrow> 32 word" where
  "le32 m a = bytes32 (m a) (m (a + 1)) (m (a + 2)) (m (a + 3))"

definition le_bytes16 :: "16 word \<Rightarrow> 8 word list" where
  "le_bytes16 v = [ucast v, ucast (drop_bit 8 v)]"

definition le_bytes32 :: "32 word \<Rightarrow> 8 word list" where
  "le_bytes32 v = [ucast v, ucast (drop_bit 8 v), ucast (drop_bit 16 v), ucast (drop_bit 24 v)]"

fun store_bytes :: "memory \<Rightarrow> addr \<Rightarrow> 8 word list \<Rightarrow> memory" where
  "store_bytes m a [] = m"
| "store_bytes m a (b # bs) = store_bytes (m(a := b)) (a + 1) bs"

text \<open>
  What the processor's own 16- and 32-bit load and store do with the bytes: a
  little-endian host takes the byte at the lowest address as the least significant one, a
  big-endian host as the most significant one.
\<close>

definition host_load16 :: "platform \<Rightarrow> memory \<Rightarrow> addr \<Rightarrow> 16 word" where
  "host_load16 P m a =
     (if big_endian P then bytes16 (m (a + 1)) (m a) else bytes16 (m a) (m (a + 1)))"

definition host_load32 :: "platform \<Rightarrow> memory \<Rightarrow> addr \<Rightarrow> 32 word" where
  "host_load32 P m a =
     (if big_endian P then bytes32 (m (a + 3)) (m (a + 2)) (m (a + 1)) (m a)
      else bytes32 (m a) (m (a + 1)) (m (a + 2)) (m (a + 3)))"

definition host_store16 :: "platform \<Rightarrow> memory \<Rightarrow> addr \<Rightarrow> 16 word \<Rightarrow> memory" where
  "host_store16 P m a v =
     store_bytes m a (if big_endian P then rev (le_bytes16 v) else le_bytes16 v)"

definition host_store32 :: "platform \<Rightarrow> memory \<Rightarrow> addr \<Rightarrow> 32 word \<Rightarrow> memory" where
  "host_store32 P m a v =
     store_bytes m a (if big_endian P then rev (le_bytes32 v) else le_bytes32 v)"

text \<open>
  Modelled from the spec: the byte-order macros \<^verbatim>\<open>grub_le_to_cpu16\<close>, \<^verbatim>\<open>grub_le_to_cpu32\<close>,
  \<^verbatim>\<open>grub_cpu_to_le16\<close> and \<^verbatim>\<open>grub_cpu_to_le32\<close> of \<^verbatim>\<open>grub/types.h\<close>, which is not among
  the driver's files. They convert between little-endian wire order and host order: the
  identity on a little-endian host, a swap of the bytes on a big-endian host.
\<close>

definition grub_swap_bytes16 :: "16 word \<Rightarrow> 16 word" where
  "grub_swap_bytes16 x = push_bit 8 x OR drop_bit 8 x"

definition grub_swap_bytes32 :: "32 word \<Rightarrow> 32 word" where
  "grub_swap_bytes32 x =
     push_bit 24 x OR push_bit 8 (x AND 0xFF00) OR drop_bit 8 (x AND 0xFF0000) OR drop_bit 24 x"

definition grub_le_to_cpu16 :: "platform \<Rightarrow> 16 word \<Rightarrow> 16 word" where
  "grub_le_to_cpu16 P x = (if big_endian P then grub_swap_bytes16 x else x)"

definition grub_le_to_cpu32 :: "platform \<Rightarrow> 32 word \<Rightarrow> 32 word" where
  "grub_le_to_cpu32 P x = (if big_endian P then grub_swap_bytes32 x else x)"

definition grub_cpu_to_le16 :: "platform \<Rightarrow> 16 word \<Rightarrow> 16 word" where
  "grub_cpu_to_le16 P x = (if big_endian P then grub_swap_bytes16 x else x)"

definition grub_cpu_to_le32 :: "platform \<Rightarrow> 32 word \<Rightarrow> 32 word" where
  "grub_cpu_to_le32 P x = (if big_endian P then grub_swap_bytes32 x else x)"

subsection \<open>The accessors of the register window (xhci.c, lines 431 to 465)\<close>

text \<open>Each accessor dereferences its volatile pointer once.\<close>

definition logged :: "access \<Rightarrow> machine \<Rightarrow> machine" where
  "logged e s = s\<lparr>trace := trace s @ [e]\<rparr>"

definition mmio_read8 :: "platform \<Rightarrow> addr \<Rightarrow> machine \<Rightarrow> 8 word \<times> machine" where
  "mmio_read8 P a s = (mem s a, logged (Load 1 a) s)"

definition mmio_read16 :: "platform \<Rightarrow> addr \<Rightarrow> machine \<Rightarrow> 16 word \<times> machine" where
  "mmio_read16 P a s = (grub_le_to_cpu16 P (host_load16 P (mem s) a), logged (Load 2 a) s)"

definition mmio_read32 :: "platform \<Rightarrow> addr \<Rightarrow> machine \<Rightarrow> 32 word \<times> machine" where
  "mmio_read32 P a s = (grub_le_to_cpu32 P (host_load32 P (mem s) a), logged (Load 4 a) s)"

definition mmio_write8 :: "platform \<Rightarrow> addr \<Rightarrow> 8 word \<Rightarrow> machine \<Rightarrow> machine" where
  "mmio_write8 P a v s = logged (Store 1 a) (s\<lparr>mem := store_bytes (mem s) a [v]\<rparr>)"

definition mmio_write16 :: "platform \<Rightarrow> addr \<Rightarrow> 16 word \<Rightarrow> machine \<Rightarrow> machine" where
  "mmio_write16 P a v s =
     logged (Store 2 a) (s\<lparr>mem := host_store16 P (mem s) a (grub_cpu_to_le16 P v)\<rparr>)"

definition mmio_write32 :: "platform \<Rightarrow> addr \<Rightarrow> 32 word \<Rightarrow> machine \<Rightarrow> machine" where
  "mmio_write32 P a v s =
     logged (Store 4 a) (s\<lparr>mem := host_store32 P (mem s) a (grub_cpu_to_le32 P v)\<rparr>)"

subsection \<open>Collaborators\<close>

text \<open>
  Modelled from the spec: the time source (\<^verbatim>\<open>grub_millisleep\<close>, a blocking delay on the
  monotonic millisecond clock), \<^verbatim>\<open>grub_error\<close> (it records the error in \<^verbatim>\<open>grub_errno\<close>)
  and the configuration-space access of the bus-enumeration collaborator
  (\<^verbatim>\<open>grub_pci_make_address\<close> with \<^verbatim>\<open>grub_pci_read\<close>, \<^verbatim>\<open>grub_pci_read_word\<close> and
  \<^verbatim>\<open>grub_pci_write_word\<close>), none of which is among the driver's files. Configuration
  space is byte-addressed and little-endian; an access gives or takes the value of the
  register.
\<close>

definition grub_millisleep :: "nat \<Rightarrow> machine \<Rightarrow> machine" where
  "grub_millisleep ms s = s\<lparr>clock := clock s + ms\<rparr>"

definition grub_error :: "grub_err_t \<Rightarrow> machine \<Rightarrow> machine" where
  "grub_error e s = s\<lparr>grub_errno := e\<rparr>"

definition grub_pci_read :: "grub_pci_device \<Rightarrow> addr \<Rightarrow> machine \<Rightarrow> 32 word" where
  "grub_pci_read dev reg s = le32 (pci_conf s dev) reg"

definition grub_pci_read_word :: "grub_pci_device \<Rightarrow> addr \<Rightarrow> machine \<Rightarrow> 16 word" where
  "grub_pci_read_word dev reg s = le16 (pci_conf s dev) reg"

definition grub_pci_write_word ::
  "grub_pci_device \<Rightarrow> addr \<Rightarrow> 16 word \<Rightarrow> machine \<Rightarrow> machine" where
  "grub_pci_write_word dev reg v s =
     s\<lparr>pci_conf := (pci_conf s)(dev := store_bytes (pci_conf s dev) reg (le_bytes16 v))\<rparr>"

text \<open>\<^verbatim>\<open>pci_config_read\<close> (xhci.c, line 282).\<close>

definition pci_config_read :: "grub_pci_device \<Rightarrow> addr \<Rightarrow> machine \<Rightarrow> 32 word" where
  "pci_config_read dev reg s = grub_pci_read dev reg s"

subsection \<open>Port register sets (xhci.c, line 476)\<close>

text \<open>
  \<^verbatim>\<open>port > xhci->max_ports\<close> compares an \<^verbatim>\<open>unsigned int\<close> with a promoted
  \<^verbatim>\<open>grub_uint8_t\<close>; \<^verbatim>\<open>~0\<close> returned as \<^verbatim>\<open>grub_uint32_t\<close> is all ones. The address is
  computed in 32-bit arithmetic, \<^verbatim>\<open>port - 1\<close> included.
\<close>

definition xhci_read_portrs ::
  "platform \<Rightarrow> grub_xhci \<Rightarrow> 32 word \<Rightarrow> xhci_portrs_type \<Rightarrow> machine \<Rightarrow> 32 word \<times> machine" where
  "xhci_read_portrs P xhci port type s =
     (if ucast (max_ports xhci) < port then (NOT 0, s)
      else mmio_read32 P (oper_regs xhci + 0x400 + (0x10 * (port - 1)) + portrs_offset type) s)"

subsection \<open>Halt and reset (xhci.c, lines 492 and 521)\<close>

text \<open>
  Both bodies consist of a debug message and \<^verbatim>\<open>return GRUB_USB_ERR_NONE\<close>; the pointer
  argument is cast to void.
\<close>

definition grub_xhci_halt :: "grub_xhci \<Rightarrow> machine \<Rightarrow> grub_usb_err_t \<times> machine" where
  "grub_xhci_halt xhci s = (GRUB_USB_ERR_NONE, s)"

definition grub_xhci_reset :: "grub_xhci \<Rightarrow> machine \<Rightarrow> grub_usb_err_t \<times> machine" where
  "grub_xhci_reset xhci s = (GRUB_USB_ERR_NONE, s)"

subsection \<open>The preboot hooks (xhci.c, lines 633 and 664)\<close>

fun restore_hw_loop :: "(addr \<times> grub_xhci) list \<Rightarrow> machine \<Rightarrow> machine" where
  "restore_hw_loop [] s = s"
| "restore_hw_loop (node # rest) s =
     (let (e1, s1) = grub_xhci_halt (snd node) s;
          s2 = (if e1 \<noteq> GRUB_USB_ERR_NONE then grub_error GRUB_ERR_TIMEOUT s1 else s1);
          (e2, s3) = grub_xhci_reset (snd node) s2;
          s4 = (if e2 \<noteq> GRUB_USB_ERR_NONE then grub_error GRUB_ERR_TIMEOUT s3 else s3)
      in restore_hw_loop rest s4)"

definition grub_xhci_restore_hw :: "machine \<Rightarrow> grub_err_t \<times> machine" where
  "grub_xhci_restore_hw s = (GRUB_ERR_NONE, restore_hw_loop (xhci_list s) s)"

fun fini_hw_loop :: "(addr \<times> grub_xhci) list \<Rightarrow> machine \<Rightarrow> machine" where
  "fini_hw_loop [] s = s"
| "fini_hw_loop (node # rest) s = fini_hw_loop rest s"

definition grub_xhci_fini_hw :: "machine \<Rightarrow> grub_err_t \<times> machine" where
  "grub_xhci_fini_hw s = (GRUB_ERR_NONE, fini_hw_loop (xhci_list s) s)"

subsection \<open>The callbacks of usb_controller_dev\<close>

text \<open>
  \<^verbatim>\<open>grub_xhci_cancel_transfer\<close> (line 689), \<^verbatim>\<open>grub_xhci_portstatus\<close> (line 925),
  \<^verbatim>\<open>grub_xhci_check_transfer\<close> (line 1030) and \<^verbatim>\<open>grub_xhci_setup_transfer\<close> (line 1105)
  return \<^verbatim>\<open>GRUB_USB_ERR_NONE\<close> after a debug message; what follows the
  \<^verbatim>\<open>return\<close> is compiled out or unreachable. The controller is \<^verbatim>\<open>dev->data\<close>; the
  out-parameter \<^verbatim>\<open>actual\<close> of \<^verbatim>\<open>grub_xhci_check_transfer\<close> is never written.
\<close>

definition grub_xhci_cancel_transfer ::
  "grub_xhci \<Rightarrow> grub_usb_transfer \<Rightarrow> machine \<Rightarrow> grub_usb_err_t \<times> machine" where
  "grub_xhci_cancel_transfer xhci transfer s = (GRUB_USB_ERR_NONE, s)"

definition grub_xhci_portstatus ::
  "grub_xhci \<Rightarrow> 32 word \<Rightarrow> 32 word \<Rightarrow> machine \<Rightarrow> grub_usb_err_t \<times> machine" where
  "grub_xhci_portstatus xhci port enable s = (GRUB_USB_ERR_NONE, s)"

definition grub_xhci_check_transfer ::
  "grub_xhci \<Rightarrow> grub_usb_transfer \<Rightarrow> machine \<Rightarrow> grub_usb_err_t \<times> machine" where
  "grub_xhci_check_transfer xhci transfer s = (GRUB_USB_ERR_NONE, s)"

definition grub_xhci_setup_transfer ::
  "grub_xhci \<Rightarrow> grub_usb_transfer \<Rightarrow> machine \<Rightarrow> grub_usb_err_t \<times> machine" where
  "grub_xhci_setup_transfer xhci transfer s = (GRUB_USB_ERR_NONE, s)"

text \<open>
  \<^verbatim>\<open>grub_xhci_detect_dev\<close> (line 809). The port register is read twice, once as an
  argument of the debug message and once for \<^verbatim>\<open>is_connected\<close>, which is not used
  afterwards. The result is chosen by the function's \<^verbatim>\<open>static int state\<close> alone. The
  second component of the result is \<^verbatim>\<open>*changed\<close>.
\<close>

definition grub_xhci_detect_dev ::
  "platform \<Rightarrow> grub_xhci \<Rightarrow> 32 word \<Rightarrow> 32 word \<Rightarrow> machine
     \<Rightarrow> grub_usb_speed_t \<times> 32 word \<times> machine" where
  "grub_xhci_detect_dev P xhci port changed s =
     (let (printed, s1) = xhci_read_portrs P xhci port PORTSC s;
          (status, s2) = xhci_read_portrs P xhci port PORTSC s1;
          is_connected = status AND 1;
          s3 = grub_millisleep 1000 s2;
          state = detect_dev_state s3
      in if state = 0 then (GRUB_USB_SPEED_SUPER, 1, s3\<lparr>detect_dev_state := 0\<rparr>)
         else if state = 1 then (GRUB_USB_SPEED_NONE, 0, s3\<lparr>detect_dev_state := 2\<rparr>)
         else if state = 2 then (GRUB_USB_SPEED_SUPER, 1, s3\<lparr>detect_dev_state := 0\<rparr>)
         else (GRUB_USB_SPEED_NONE, changed, s3))"

text \<open>
  \<^verbatim>\<open>grub_xhci_hubports\<close> (line 1012). \<^verbatim>\<open>hcsparams1\<close> lies at offset 4 of
  \<^verbatim>\<open>struct xhci_cap_regs\<close>. The second component of the result is the controller as the
  function leaves it.
\<close>

definition grub_xhci_hubports ::
  "platform \<Rightarrow> grub_xhci \<Rightarrow> machine \<Rightarrow> 32 word \<times> grub_xhci \<times> machine" where
  "grub_xhci_hubports P xhci s =
     (let (hcsparams1, s1) = mmio_read32 P (cap_regs xhci + 0x04) s;
          xhci1 = xhci\<lparr>max_device_slots := ucast (hcsparams1 AND 0xff)\<rparr>;
          xhci2 = xhci1\<lparr>max_ports := ucast (drop_bit 24 hcsparams1 AND 0xff)\<rparr>;
          nports = ucast (max_ports xhci2)
      in (nports, xhci2, s1))"

subsection \<open>Initialisation (xhci.c, lines 1262 to 1600)\<close>

text \<open>
  The two dump functions read the registers that they print, in program order. The
  offsets are those of the members of \<^verbatim>\<open>struct xhci_cap_regs\<close> and
  \<^verbatim>\<open>struct xhci_oper_regs\<close> as the structs are declared (in the latter, \<^verbatim>\<open>dcbaap\<close> follows
  the four words of \<^verbatim>\<open>rsvdz3\<close> that start at 0x1c).
\<close>

definition grub_xhci_dump_cap :: "platform \<Rightarrow> grub_xhci \<Rightarrow> machine \<Rightarrow> 32 word \<times> machine" where
  "grub_xhci_dump_cap P xhci s =
     (0, fold id
        [snd \<circ> mmio_read8 P (cap_regs xhci),
         snd \<circ> mmio_read16 P (cap_regs xhci + 0x02),
         snd \<circ> mmio_read32 P (cap_regs xhci + 0x04),
         snd \<circ> mmio_read32 P (cap_regs xhci + 0x08),
         snd \<circ> mmio_read32 P (cap_regs xhci + 0x0c),
         snd \<circ> mmio_read32 P (cap_regs xhci + 0x10),
         snd \<circ> mmio_read32 P (cap_regs xhci + 0x14),
         snd \<circ> mmio_read32 P (cap_regs xhci + 0x18),
         snd \<circ> mmio_read32 P (cap_regs xhci + 0x1c)] s)"

definition grub_xhci_dump_oper :: "platform \<Rightarrow> grub_xhci \<Rightarrow> machine \<Rightarrow> 32 word \<times> machine" where
  "grub_xhci_dump_oper P xhci s =
     (0, fold id
        [snd \<circ> mmio_read32 P (oper_regs xhci),
         snd \<circ> mmio_read32 P (oper_regs xhci + 0x04),
         snd \<circ> mmio_read32 P (oper_regs xhci + 0x08),
         snd \<circ> mmio_read32 P (oper_regs xhci + 0x14),
         snd \<circ> mmio_read32 P (oper_regs xhci + 0x18),
         snd \<circ> mmio_read32 P (oper_regs xhci + 0x2c),
         snd \<circ> mmio_read32 P (oper_regs xhci + 0x30)] s)"

text \<open>
  \<^verbatim>\<open>grub_xhci_init\<close> (line 1326) locates the four register blocks from the mapped base,
  dumps the registers and returns 0. The second component of the result is the controller
  as the function leaves it.
\<close>

definition grub_xhci_init ::
  "platform \<Rightarrow> grub_xhci \<Rightarrow> addr \<Rightarrow> machine \<Rightarrow> 32 word \<times> grub_xhci \<times> machine" where
  "grub_xhci_init P xhci mmio_base_addr s =
     (let x1 = xhci\<lparr>cap_regs := mmio_base_addr\<rparr>;
          (caplength, s1) = mmio_read8 P (cap_regs x1) s;
          x2 = x1\<lparr>oper_regs := cap_regs x1 + ucast caplength\<rparr>;
          (dboff, s2) = mmio_read32 P (cap_regs x2 + 0x14) s1;
          x3 = x2\<lparr>db_regs := cap_regs x2 + (dboff AND DBOFF_MASK)\<rparr>;
          (rtsoff, s3) = mmio_read32 P (cap_regs x3 + 0x18) s2;
          x4 = x3\<lparr>run_regs := cap_regs x3 + (rtsoff AND RTSOFF_MASK)\<rparr>;
          (r1, s4) = grub_xhci_dump_cap P x4 s3;
          (r2, s5) = grub_xhci_dump_oper P x4 s4
      in (0, x4, s5))"

subsection \<open>Attach (xhci.c, line 1679)\<close>

text \<open>
  \<^verbatim>\<open>grub_xhci_pci_iter\<close>. A block from \<^verbatim>\<open>grub_malloc\<close> is entered in \<open>allocated\<close> and
  \<^verbatim>\<open>grub_free\<close> removes it; the new controller is linked in front of \<^verbatim>\<open>xhci_list\<close>.
\<close>

definition grub_xhci_pci_iter ::
  "platform \<Rightarrow> grub_pci_device \<Rightarrow> machine \<Rightarrow> 32 word \<times> machine" where
  "grub_xhci_pci_iter P dev s =
     (let class_code = drop_bit 8 (pci_config_read dev (GRUB_PCI_REG_CLASS P) s) in
      if class_code \<noteq> 0x0c0330 then (0, s)
      else
        let base = grub_pci_read dev (GRUB_PCI_REG_ADDRESS_REG0 P) s;
            base_h = grub_pci_read dev (GRUB_PCI_REG_ADDRESS_REG1 P) s
        in
          if (base AND GRUB_PCI_ADDR_MEM_TYPE_MASK P) \<noteq> GRUB_PCI_ADDR_MEM_TYPE_32 P \<and> base_h \<noteq> 0
          then (0, s)
          else
            let base1 = base AND GRUB_PCI_ADDR_MEM_MASK P in
            if base1 = 0 then (0, s)
            else
              let s1 = grub_pci_write_word dev (GRUB_PCI_REG_COMMAND P)
                         (GRUB_PCI_COMMAND_MEM_ENABLED P OR GRUB_PCI_COMMAND_BUS_MASTER P
                            OR grub_pci_read_word dev (GRUB_PCI_REG_COMMAND P) s) s;
                  mmio_base_addr = grub_pci_device_map_range P (base1 AND GRUB_XHCI_ADDR_MEM_MASK);
                  xhci_ptr = grub_malloc P (allocated s1)
              in
                if xhci_ptr = 0 then (usb_err_value P GRUB_USB_ERR_INTERNAL, s1)
                else
                  let s2 = s1\<lparr>allocated := xhci_ptr # allocated s1\<rparr>;
                      (err, xhci, s3) = grub_xhci_init P (uninitialised P) mmio_base_addr s2
                  in
                    if err \<noteq> 0
                    then (err, s3\<lparr>allocated := removeAll xhci_ptr (allocated s3)\<rparr>)
                    else (0, s3\<lparr>xhci_list := (xhci_ptr, xhci) # xhci_list s3\<rparr>))"

subsection \<open>The operations on a registered controller\<close>

text \<open>
  A callback receives its controller as \<^verbatim>\<open>dev->data\<close>, and \<^verbatim>\<open>grub_xhci_iterate\<close>
  (line 1244) sets \<^verbatim>\<open>dev.data\<close> to a node of \<^verbatim>\<open>xhci_list\<close>: the struct that a callback
  reads and writes is the registry node itself. \<open>controller_at\<close> is the node at an
  address, \<open>store_controller\<close> writes a node.

  \<open>apply_op\<close> is one operation of the driver on the node \<open>x\<close> at address \<open>p\<close>: halt,
  reset, or a callback that \<^verbatim>\<open>usb_controller_dev\<close> (line 1759) registers. Only
  \<^verbatim>\<open>grub_xhci_hubports\<close> assigns to members of the struct, so only it writes the node.
  \<open>run_op\<close> dereferences \<^verbatim>\<open>dev->data\<close>; it has no result when the pointer is not the
  address of a node. \<open>run_calls\<close> runs a sequence of calls, each with its own
  \<^verbatim>\<open>dev->data\<close>.
\<close>

definition controller_at :: "machine \<Rightarrow> addr \<Rightarrow> grub_xhci option" where
  "controller_at s p = map_of (xhci_list s) p"

definition store_controller :: "addr \<Rightarrow> grub_xhci \<Rightarrow> machine \<Rightarrow> machine" where
  "store_controller p x s =
     s\<lparr>xhci_list := map (\<lambda>node. if fst node = p then (p, x) else node) (xhci_list s)\<rparr>"

datatype driver_op =
    Op_halt
  | Op_reset
  | Op_setup_transfer grub_usb_transfer
  | Op_check_transfer grub_usb_transfer
  | Op_cancel_transfer grub_usb_transfer
  | Op_hubports
  | Op_portstatus "32 word" "32 word"
  | Op_detect_dev "32 word" "32 word"

fun apply_op :: "platform \<Rightarrow> driver_op \<Rightarrow> addr \<Rightarrow> grub_xhci \<Rightarrow> machine \<Rightarrow> machine" where
  "apply_op P Op_halt p x s = snd (grub_xhci_halt x s)"
| "apply_op P Op_reset p x s = snd (grub_xhci_reset x s)"
| "apply_op P (Op_setup_transfer t) p x s = snd (grub_xhci_setup_transfer x t s)"
| "apply_op P (Op_check_transfer t) p x s = snd (grub_xhci_check_transfer x t s)"
| "apply_op P (Op_cancel_transfer t) p x s = snd (grub_xhci_cancel_transfer x t s)"
| "apply_op P Op_hubports p x s =
     (let (nports, x', s') = grub_xhci_hubports P x s in store_controller p x' s')"
| "apply_op P (Op_portstatus port enable) p x s = snd (grub_xhci_portstatus x port enable s)"
| "apply_op P (Op_detect_dev port changed) p x s =
     snd (snd (grub_xhci_detect_dev P x port changed s))"

definition run_op :: "platform \<Rightarrow> driver_op \<Rightarrow> addr \<Rightarrow> machine \<Rightarrow> machine option" where
  "run_op P op p s =
     (case controller_at s p of None \<Rightarrow> None | Some x \<Rightarrow> Some (apply_op P op p x s))"

fun run_calls :: "platform \<Rightarrow> (addr \<times> driver_op) list \<Rightarrow> machine \<Rightarrow> machine option" where
  "run_calls P [] s = Some s"
| "run_calls P (call # calls) s =
     (case run_op P (snd call) (fst call) s of
        None \<Rightarrow> None
      | Some s' \<Rightarrow> run_calls P calls s')"

subsection \<open>A concrete machine\<close>

text \<open>
  A little-endian PC with the constants of \<^verbatim>\<open>grub/pci.h\<close>, an identity mapping of
  register windows, an allocator that hands out zero-filled blocks from 0x00100000 on,
  and one controller whose register window lies at 0xFEB00000: CAPLENGTH is 0x20,
  HCSPARAMS1 reports 32 slots and 4 ports, DBOFF is 0x2000, RTSOFF is 0x1000, the
  extended capabilities start at dword 0x200 (HCCPARAMS1) with a legacy-support capability
  whose BIOS-owned bit is set. The controller is running (USBCMD.RS set, USBSTS.HCH clear);
  port 1 has a device connected and is not enabled, port 2 is empty. Three PCI functions of
  the xHCI class exist: one with a 64-bit BAR above 4 GiB, one with an unmapped BAR, one
  with the BAR at 0xFEB00000.
\<close>

definition example_platform :: platform where
  "example_platform =
     \<lparr>big_endian = False,
      GRUB_PCI_REG_CLASS = 0x08,
      GRUB_PCI_REG_ADDRESS_REG0 = 0x10,
      GRUB_PCI_REG_ADDRESS_REG1 = 0x14,
      GRUB_PCI_REG_COMMAND = 0x04,
      GRUB_PCI_ADDR_MEM_TYPE_MASK = 0x06,
      GRUB_PCI_ADDR_MEM_TYPE_32 = 0x00,
      GRUB_PCI_ADDR_MEM_MASK = NOT 0xf,
      GRUB_PCI_COMMAND_MEM_ENABLED = 0x0002,
      GRUB_PCI_COMMAND_BUS_MASTER = 0x0004,
      usb_err_value = (\<lambda>e. case e of
          GRUB_USB_ERR_NONE \<Rightarrow> 0 | GRUB_USB_ERR_WAIT \<Rightarrow> 1 | GRUB_USB_ERR_INTERNAL \<Rightarrow> 2
        | GRUB_USB_ERR_TIMEOUT \<Rightarrow> 7 | GRUB_USB_ERR_UNRECOVERABLE \<Rightarrow> 9
        | GRUB_USB_ERR_BADDEVICE \<Rightarrow> 10),
      grub_pci_device_map_range = (\<lambda>a. a),
      grub_malloc = (\<lambda>blocks. 0x00100000 + 0x100 * of_nat (length blocks)),
      uninitialised =
        \<lparr>cap_regs = 0, oper_regs = 0, run_regs = 0, db_regs = 0,
         max_device_slots = 0, max_ports = 0,
         regs = 0, cap = 0, oper = 0, runtime = 0, slots = 0, ports = 0,
         iobase_cap = 0, iobase_oper = 0\<rparr>\<rparr>"

definition example_mem :: memory where
  "example_mem =
     (\<lambda>a. 0)
       (0xFEB00000 := 0x20,
        0xFEB00004 := 0x20, 0xFEB00007 := 0x04,
        0xFEB00013 := 0x02,
        0xFEB00015 := 0x20,
        0xFEB00019 := 0x10,
        0xFEB00020 := 0x01,
        0xFEB00420 := 0x01,
        0xFEB00800 := 0x01, 0xFEB00802 := 0x01)"

definition dev_above_4G :: grub_pci_device where
  "dev_above_4G = \<lparr>bus = 0, device = 20, func = 0\<rparr>"

definition dev_unmapped :: grub_pci_device where
  "dev_unmapped = \<lparr>bus = 0, device = 21, func = 0\<rparr>"

definition dev_mapped :: grub_pci_device where
  "dev_mapped = \<lparr>bus = 0, device = 22, func = 0\<rparr>"

definition example_pci_conf :: "grub_pci_device \<Rightarrow> memory" where
  "example_pci_conf =
     (\<lambda>dev a. 0)
       (dev_above_4G := (\<lambda>a. 0)(0x09 := 0x30, 0x0a := 0x03, 0x0b := 0x0c,
                                  0x10 := 0x04, 0x14 := 0x01),
        dev_unmapped := (\<lambda>a. 0)(0x09 := 0x30, 0x0a := 0x03, 0x0b := 0x0c),
        dev_mapped := (\<lambda>a. 0)(0x09 := 0x30, 0x0a := 0x03, 0x0b := 0x0c,
                                0x12 := 0xB0, 0x13 := 0xFE))"

definition example_machine :: machine where
  "example_machine =
     \<lparr>mem = example_mem, trace = [], clock = 0, pci_conf = example_pci_conf,
      detect_dev_state = 0, grub_errno = GRUB_ERR_NONE, allocated = [], xhci_list = []\<rparr>"

text \<open>The same machine with the controller halted (USBCMD.RS clear, USBSTS.HCH set).\<close>

definition halted_machine :: machine where
  "halted_machine =
     example_machine\<lparr>mem := example_mem(0xFEB00020 := 0x00, 0xFEB00024 := 0x01)\<rparr>"

text \<open>The controller as attach and \<^verbatim>\<open>grub_xhci_hubports\<close> leave it on this machine.\<close>

definition example_xhci :: grub_xhci where
  "example_xhci =
     \<lparr>cap_regs = 0xFEB00000, oper_regs = 0xFEB00020, run_regs = 0xFEB01000,
      db_regs = 0xFEB02000, max_device_slots = 32, max_ports = 4,
      regs = 0, cap = 0, oper = 0, runtime = 0, slots = 0, ports = 0,
      iobase_cap = 0, iobase_oper = 0\<rparr>"

text \<open>
  The result of \<^verbatim>\<open>grub_xhci_init\<close> on a fresh block for this controller, and the result
  of running it a second time on what the first run left.
\<close>

definition example_attach :: "32 word \<times> grub_xhci \<times> machine" where
  "example_attach =
     grub_xhci_init example_platform (uninitialised example_platform) 0xFEB00000 example_machine"

definition example_attach_twice :: "32 word \<times> grub_xhci \<times> machine" where
  "example_attach_twice =
     grub_xhci_init example_platform (fst (snd example_attach)) 0xFEB00000
       (snd (snd example_attach))"

text \<open>
  The machine after \<^verbatim>\<open>grub_xhci_pci_iter\<close> has attached the function with the BAR at
  0xFEB00000: the registry holds one node, at 0x00100000.
\<close>

definition example_attached :: machine where
  "example_attached = snd (grub_xhci_pci_iter example_platform dev_mapped example_machine)"

section \<open>Properties\<close>

subsection \<open>Byte order\<close>

lemma bit8_high: "8 \<le> n \<Longrightarrow> \<not> bit (b :: 8 word) n"
  by (auto dest: bit_imp_le_length)

lemma mask_FF00: "(0xFF00 :: 32 word) = push_bit 8 (mask 8)"
  by (simp add: mask_eq_exp_minus_1)

lemma mask_FF0000: "(0xFF0000 :: 32 word) = push_bit 16 (mask 8)"
  by (simp add: mask_eq_exp_minus_1)

lemma swap16_bytes16: "grub_swap_bytes16 (bytes16 b1 b0) = bytes16 b0 b1"
  unfolding grub_swap_bytes16_def bytes16_def
  by (rule bit_word_eqI) (auto simp add: bit_simps bit8_high)

lemma bit_swap32:
  "bit (grub_swap_bytes32 x) n \<longleftrightarrow>
     (n < 8 \<and> bit x (n + 24)) \<or> (8 \<le> n \<and> n < 16 \<and> bit x (n + 8))
   \<or> (16 \<le> n \<and> n < 24 \<and> bit x (n - 8)) \<or> (24 \<le> n \<and> n < 32 \<and> bit x (n - 24))"
  unfolding grub_swap_bytes32_def mask_FF00 mask_FF0000
  apply (simp add: bit_simps add.commute)
  apply (cases "n < 8"; cases "n < 16"; cases "n < 24"; cases "n < 32"; simp add: add.commute)
  apply (auto dest: bit_imp_le_length)
  done

lemma bit_bytes32:
  "bit (bytes32 b0 b1 b2 b3) n \<longleftrightarrow>
     (n < 8 \<and> bit b0 n) \<or> (8 \<le> n \<and> n < 16 \<and> bit b1 (n - 8))
   \<or> (16 \<le> n \<and> n < 24 \<and> bit b2 (n - 16)) \<or> (24 \<le> n \<and> n < 32 \<and> bit b3 (n - 24))"
  unfolding bytes32_def
  apply (simp add: bit_simps)
  apply (cases "n < 8"; cases "n < 16"; cases "n < 24"; cases "n < 32"; simp add: bit8_high)
  apply (auto dest: bit_imp_le_length)
  done

lemma swap32_bytes32: "grub_swap_bytes32 (bytes32 b3 b2 b1 b0) = bytes32 b0 b1 b2 b3"
  apply (rule bit_word_eqI)
  apply (simp only: bit_swap32 bit_bytes32)
  subgoal for n
    by (cases "n < 8"; cases "n < 16"; cases "n < 24"; cases "n < 32"; simp) auto
  done

lemma byte0_swap32: "(ucast (grub_swap_bytes32 x) :: 8 word) = ucast (drop_bit 24 x)"
  by (rule bit_word_eqI) (auto simp add: bit_simps bit_swap32 add.commute)

lemma byte1_swap32: "(ucast (drop_bit 8 (grub_swap_bytes32 x)) :: 8 word) = ucast (drop_bit 16 x)"
  by (rule bit_word_eqI) (auto simp add: bit_simps bit_swap32 add.commute)

lemma byte2_swap32: "(ucast (drop_bit 16 (grub_swap_bytes32 x)) :: 8 word) = ucast (drop_bit 8 x)"
  by (rule bit_word_eqI) (auto simp add: bit_simps bit_swap32 add.commute)

lemma byte3_swap32: "(ucast (drop_bit 24 (grub_swap_bytes32 x)) :: 8 word) = ucast x"
  by (rule bit_word_eqI) (auto simp add: bit_simps bit_swap32 add.commute)

lemma rev_le_bytes32_swap: "rev (le_bytes32 (grub_swap_bytes32 v)) = le_bytes32 v"
  by (simp add: le_bytes32_def byte0_swap32 byte1_swap32 byte2_swap32 byte3_swap32)

lemma rev_le_bytes16_swap: "rev (le_bytes16 (grub_swap_bytes16 v)) = le_bytes16 v"
  unfolding le_bytes16_def grub_swap_bytes16_def
  apply simp
  apply (intro conjI; rule bit_word_eqI; auto simp add: bit_simps)
  done

lemma le_to_cpu16_host_load: "grub_le_to_cpu16 P (host_load16 P m a) = le16 m a"
  by (simp add: grub_le_to_cpu16_def host_load16_def le16_def swap16_bytes16)

lemma le_to_cpu32_host_load: "grub_le_to_cpu32 P (host_load32 P m a) = le32 m a"
  by (simp add: grub_le_to_cpu32_def host_load32_def le32_def swap32_bytes32)

lemma host_store16_cpu_to_le:
  "host_store16 P m a (grub_cpu_to_le16 P v) = store_bytes m a (le_bytes16 v)"
  by (simp add: host_store16_def grub_cpu_to_le16_def rev_le_bytes16_swap)

lemma host_store32_cpu_to_le:
  "host_store32 P m a (grub_cpu_to_le32 P v) = store_bytes m a (le_bytes32 v)"
  by (simp add: host_store32_def grub_cpu_to_le32_def rev_le_bytes32_swap)

lemma mmio_read8_eq: "mmio_read8 P a s = (mem s a, s\<lparr>trace := trace s @ [Load 1 a]\<rparr>)"
  by (simp add: mmio_read8_def logged_def)

lemma mmio_read16_eq: "mmio_read16 P a s = (le16 (mem s) a, s\<lparr>trace := trace s @ [Load 2 a]\<rparr>)"
  by (simp add: mmio_read16_def logged_def le_to_cpu16_host_load)

lemma mmio_read32_eq: "mmio_read32 P a s = (le32 (mem s) a, s\<lparr>trace := trace s @ [Load 4 a]\<rparr>)"
  by (simp add: mmio_read32_def logged_def le_to_cpu32_host_load)

lemma mmio_write8_eq:
  "mmio_write8 P a v s = s\<lparr>mem := (mem s)(a := v), trace := trace s @ [Store 1 a]\<rparr>"
  by (simp add: mmio_write8_def logged_def)

lemma mmio_write16_eq:
  "mmio_write16 P a v s =
     s\<lparr>mem := store_bytes (mem s) a (le_bytes16 v), trace := trace s @ [Store 2 a]\<rparr>"
  by (simp add: mmio_write16_def logged_def host_store16_cpu_to_le)

lemma mmio_write32_eq:
  "mmio_write32 P a v s =
     s\<lparr>mem := store_bytes (mem s) a (le_bytes32 v), trace := trace s @ [Store 4 a]\<rparr>"
  by (simp add: mmio_write32_def logged_def host_store32_cpu_to_le)

subsection \<open>What the operations do\<close>

lemma grub_xhci_init_eq:
  "grub_xhci_init P x b s =
     (0,
      x\<lparr>cap_regs := b,
        oper_regs := b + ucast (mem s b),
        db_regs := b + (le32 (mem s) (b + 0x14) AND DBOFF_MASK),
        run_regs := b + (le32 (mem s) (b + 0x18) AND RTSOFF_MASK)\<rparr>,
      s\<lparr>trace := trace s @
         [Load 1 b, Load 4 (b + 0x14), Load 4 (b + 0x18),
          Load 1 b, Load 2 (b + 0x02), Load 4 (b + 0x04), Load 4 (b + 0x08), Load 4 (b + 0x0c),
          Load 4 (b + 0x10), Load 4 (b + 0x14), Load 4 (b + 0x18), Load 4 (b + 0x1c),
          Load 4 (b + ucast (mem s b)), Load 4 (b + ucast (mem s b) + 0x04),
          Load 4 (b + ucast (mem s b) + 0x08), Load 4 (b + ucast (mem s b) + 0x14),
          Load 4 (b + ucast (mem s b) + 0x18), Load 4 (b + ucast (mem s b) + 0x2c),
          Load 4 (b + ucast (mem s b) + 0x30)]\<rparr>)"
  by (simp add: grub_xhci_init_def grub_xhci_dump_cap_def grub_xhci_dump_oper_def
      mmio_read8_eq mmio_read16_eq mmio_read32_eq)

lemma grub_xhci_hubports_eq:
  "grub_xhci_hubports P x s =
     (ucast (ucast (drop_bit 24 (le32 (mem s) (cap_regs x + 4)) AND 0xff) :: 8 word),
      x\<lparr>max_device_slots := ucast (le32 (mem s) (cap_regs x + 4) AND 0xff),
        max_ports := ucast (drop_bit 24 (le32 (mem s) (cap_regs x + 4)) AND 0xff)\<rparr>,
      s\<lparr>trace := trace s @ [Load 4 (cap_regs x + 4)]\<rparr>)"
  by (simp add: grub_xhci_hubports_def mmio_read32_eq)

lemma xhci_read_portrs_mem: "mem (snd (xhci_read_portrs P x port type s)) = mem s"
  by (simp add: xhci_read_portrs_def mmio_read32_eq)

lemma xhci_read_portrs_xhci_list:
  "xhci_list (snd (xhci_read_portrs P x port type s)) = xhci_list s"
  by (simp add: xhci_read_portrs_def mmio_read32_eq)

lemma grub_xhci_detect_dev_xhci_list:
  "xhci_list (snd (snd (grub_xhci_detect_dev P x port changed s))) = xhci_list s"
  by (simp add: grub_xhci_detect_dev_def grub_millisleep_def Let_def split_def
      xhci_read_portrs_xhci_list)

lemma restore_hw_loop_eq: "restore_hw_loop nodes s = s"
  by (induction nodes arbitrary: s)
     (simp_all add: grub_xhci_halt_def grub_xhci_reset_def)

lemma fini_hw_loop_eq: "fini_hw_loop nodes s = s"
  by (induction nodes arbitrary: s) simp_all

lemma bytes32_le_bytes:
  "bytes32 (ucast v) (ucast (drop_bit 8 v)) (ucast (drop_bit 16 v)) (ucast (drop_bit 24 v)) = v"
  apply (rule bit_word_eqI)
  apply (simp only: bit_bytes32)
  subgoal for n
    by (cases "n < 8"; cases "n < 16"; cases "n < 24"; cases "n < 32";
        simp add: bit_simps) auto
  done

lemma le32_store_bytes: "le32 (store_bytes m a (le_bytes32 v)) a = v"
  by (simp add: le32_def le_bytes32_def bytes32_le_bytes)

text \<open>
  A value written through \<^verbatim>\<open>mmio_write32\<close> is what \<^verbatim>\<open>mmio_read32\<close> returns from the same
  address, on a host of either byte order.
\<close>

lemma mmio_read32_after_write32: "fst (mmio_read32 P a (mmio_write32 P a v s)) = v"
  by (simp add: mmio_read32_eq mmio_write32_eq le32_store_bytes)

subsection \<open>Frame properties of the operations\<close>

lemma grub_xhci_init_frame:
  "mem (snd (snd (grub_xhci_init P x b s))) = mem s
   \<and> pci_conf (snd (snd (grub_xhci_init P x b s))) = pci_conf s
   \<and> clock (snd (snd (grub_xhci_init P x b s))) = clock s"
  by (simp add: grub_xhci_init_eq)

lemma xhci_read_portrs_detect_dev_state:
  "detect_dev_state (snd (xhci_read_portrs P x port type s)) = detect_dev_state s"
  by (simp add: xhci_read_portrs_def mmio_read32_eq)

text \<open>
  The \<^verbatim>\<open>static int state\<close> of \<^verbatim>\<open>grub_xhci_detect_dev\<close> starts at 0 and the case for 0
  stores 0 again: from the initial state the function answers SuperSpeed with
  \<^verbatim>\<open>*changed = 1\<close> on every call, whatever the port register holds.
\<close>

lemma grub_xhci_detect_dev_state0:
  "detect_dev_state s = 0 \<Longrightarrow>
   fst (grub_xhci_detect_dev P x port changed s) = GRUB_USB_SPEED_SUPER
   \<and> fst (snd (grub_xhci_detect_dev P x port changed s)) = 1
   \<and> detect_dev_state (snd (snd (grub_xhci_detect_dev P x port changed s))) = 0"
  by (simp add: grub_xhci_detect_dev_def grub_millisleep_def Let_def split_def
      xhci_read_portrs_detect_dev_state)

text \<open>
  The registry under \<open>store_controller\<close>, and what one call and a sequence of calls do to
  a node.
\<close>

lemma map_of_store_node:
  "map_of (map (\<lambda>node. if fst node = p then (p, x) else node) nodes) q
     = (if q = p then map_option (\<lambda>y. x) (map_of nodes p) else map_of nodes q)"
  by (induction nodes) auto

lemma controller_at_store:
  "controller_at (store_controller p x s) q
     = (if q = p then map_option (\<lambda>y. x) (controller_at s p) else controller_at s q)"
  by (simp add: controller_at_def store_controller_def map_of_store_node)

lemma mem_store_controller: "mem (store_controller p x s) = mem s"
  by (simp add: store_controller_def)

lemma xhci_read_portrs_frame:
  "mem (snd (xhci_read_portrs P x port type s)) = mem s
   \<and> xhci_list (snd (xhci_read_portrs P x port type s)) = xhci_list s"
  by (simp add: xhci_read_portrs_def mmio_read32_eq)

lemma grub_xhci_detect_dev_frame:
  "mem (snd (snd (grub_xhci_detect_dev P x port changed s))) = mem s
   \<and> xhci_list (snd (snd (grub_xhci_detect_dev P x port changed s))) = xhci_list s"
  by (simp add: grub_xhci_detect_dev_def grub_millisleep_def Let_def split_def
      xhci_read_portrs_frame)

lemma apply_op_mem: "mem (apply_op P op p x s) = mem s"
  by (cases op)
     (simp_all add: grub_xhci_halt_def grub_xhci_reset_def grub_xhci_setup_transfer_def
        grub_xhci_check_transfer_def grub_xhci_cancel_transfer_def grub_xhci_portstatus_def
        grub_xhci_detect_dev_frame grub_xhci_hubports_eq mem_store_controller)

lemma apply_op_other:
  "op \<noteq> Op_hubports \<Longrightarrow> controller_at (apply_op P op p x s) q = controller_at s q"
  by (cases op)
     (simp_all add: controller_at_def grub_xhci_halt_def grub_xhci_reset_def
        grub_xhci_setup_transfer_def grub_xhci_check_transfer_def
        grub_xhci_cancel_transfer_def grub_xhci_portstatus_def grub_xhci_detect_dev_frame)

lemma apply_op_hubports:
  "controller_at s p = Some x \<Longrightarrow>
   controller_at (apply_op P Op_hubports p x s) q
     = (if q = p
        then Some (x\<lparr>max_device_slots := ucast (le32 (mem s) (cap_regs x + 4) AND 0xff),
                     max_ports := ucast (drop_bit 24 (le32 (mem s) (cap_regs x + 4)) AND 0xff)\<rparr>)
        else controller_at s q)"
  by (simp add: grub_xhci_hubports_eq controller_at_store)
     (simp add: controller_at_def)

lemma run_op_Some:
  "controller_at s p = Some x \<Longrightarrow> run_op P op p s = Some (apply_op P op p x s)"
  by (simp add: run_op_def)

text \<open>One call on the node at \<open>q\<close>, seen from the node at \<open>p\<close>.\<close>

lemma apply_op_node:
  assumes "controller_at s q = Some y" and "controller_at s p = Some x"
  shows "\<exists>x'. controller_at (apply_op P op q y s) p = Some x'
     \<and> cap_regs x' = cap_regs x \<and> oper_regs x' = oper_regs x
     \<and> run_regs x' = run_regs x \<and> db_regs x' = db_regs x
     \<and> max_ports x' = (if q = p \<and> op = Op_hubports
          then ucast (drop_bit 24 (le32 (mem s) (cap_regs x + 4)) AND 0xff) else max_ports x)
     \<and> max_device_slots x' = (if q = p \<and> op = Op_hubports
          then ucast (le32 (mem s) (cap_regs x + 4) AND 0xff) else max_device_slots x)"
proof (cases "op = Op_hubports")
  case True
  then show ?thesis
    using assms apply_op_hubports [OF assms(1), of P]
    by (auto simp del: apply_op.simps)
next
  case False
  then show ?thesis using assms by (simp add: apply_op_other)
qed

lemma apply_op_dom:
  assumes "controller_at s q = Some y" and "controller_at s r \<noteq> None"
  shows "controller_at (apply_op P op q y s) r \<noteq> None"
proof (cases "op = Op_hubports")
  case True
  then show ?thesis
    using assms apply_op_hubports [OF assms(1), of P]
    by (auto simp del: apply_op.simps)
next
  case False
  then show ?thesis using assms by (simp add: apply_op_other)
qed

lemma run_calls_node:
  assumes "controller_at s p = Some x"
      and "\<forall>call \<in> set calls. controller_at s (fst call) \<noteq> None"
  shows "\<exists>s' x'. run_calls P calls s = Some s' \<and> mem s' = mem s
     \<and> controller_at s' p = Some x'
     \<and> cap_regs x' = cap_regs x \<and> oper_regs x' = oper_regs x
     \<and> run_regs x' = run_regs x \<and> db_regs x' = db_regs x
     \<and> max_ports x' = (if (p, Op_hubports) \<in> set calls
          then ucast (drop_bit 24 (le32 (mem s) (cap_regs x + 4)) AND 0xff) else max_ports x)
     \<and> max_device_slots x' = (if (p, Op_hubports) \<in> set calls
          then ucast (le32 (mem s) (cap_regs x + 4) AND 0xff) else max_device_slots x)
     \<and> (\<forall>r. controller_at s r \<noteq> None \<longrightarrow> controller_at s' r \<noteq> None)"
  using assms
proof (induction calls arbitrary: s x)
  case Nil
  then show ?case by simp
next
  case (Cons call calls)
  obtain q op where call: "call = (q, op)" by (cases call)
  from Cons.prems(2) call obtain y where y: "controller_at s q = Some y" by auto
  let ?s1 = "apply_op P op q y s"
  have step: "run_op P op q s = Some ?s1" using y by (rule run_op_Some)
  have mem1: "mem ?s1 = mem s" by (rule apply_op_mem)
  obtain x1 where x1: "controller_at ?s1 p = Some x1"
    "cap_regs x1 = cap_regs x" "oper_regs x1 = oper_regs x"
    "run_regs x1 = run_regs x" "db_regs x1 = db_regs x"
    "max_ports x1 = (if q = p \<and> op = Op_hubports
          then ucast (drop_bit 24 (le32 (mem s) (cap_regs x + 4)) AND 0xff) else max_ports x)"
    "max_device_slots x1 = (if q = p \<and> op = Op_hubports
          then ucast (le32 (mem s) (cap_regs x + 4) AND 0xff) else max_device_slots x)"
    using apply_op_node [OF y Cons.prems(1), of P op] by blast
  have dom1: "\<And>r. controller_at s r \<noteq> None \<Longrightarrow> controller_at ?s1 r \<noteq> None"
    using apply_op_dom [OF y] by blast
  have targets1: "\<forall>c \<in> set calls. controller_at ?s1 (fst c) \<noteq> None"
    using Cons.prems(2) dom1 by simp
  obtain s' x' where rest: "run_calls P calls ?s1 = Some s'" "mem s' = mem ?s1"
    "controller_at s' p = Some x'"
    "cap_regs x' = cap_regs x1" "oper_regs x' = oper_regs x1"
    "run_regs x' = run_regs x1" "db_regs x' = db_regs x1"
    "max_ports x' = (if (p, Op_hubports) \<in> set calls
          then ucast (drop_bit 24 (le32 (mem ?s1) (cap_regs x1 + 4)) AND 0xff) else max_ports x1)"
    "max_device_slots x' = (if (p, Op_hubports) \<in> set calls
          then ucast (le32 (mem ?s1) (cap_regs x1 + 4) AND 0xff) else max_device_slots x1)"
    "\<forall>r. controller_at ?s1 r \<noteq> None \<longrightarrow> controller_at s' r \<noteq> None"
    using Cons.IH [OF x1(1) targets1] by blast
  have run: "run_calls P (call # calls) s = Some s'"
    using step rest(1) call by simp
  show ?case
    using run rest x1 mem1 dom1 call by (auto simp add: )
qed

text \<open>
  A count that \<^verbatim>\<open>grub_xhci_hubports\<close> stores is the low byte of a field of HCSPARAMS1: it is
  at least 1 exactly when the field is not zero, and the function stores a zero field as
  it is.
\<close>

lemma mask_FF: "(0xff :: 32 word) = mask 8"
  by (simp add: mask_eq_exp_minus_1)

lemma ucast_low_byte_eq_0:
  "(ucast (w AND 0xff) :: 8 word) = 0 \<longleftrightarrow> (w :: 32 word) AND 0xff = 0"
  unfolding mask_FF
  apply (auto simp add: bit_eq_iff bit_simps)
  subgoal for n by (drule spec [of _ n]) simp
  done

lemma count_range:
  fixes w :: "32 word"
  assumes "w AND 0xff \<noteq> 0"
  shows "1 \<le> unat (ucast (w AND 0xff) :: 8 word) \<and> unat (ucast (w AND 0xff) :: 8 word) \<le> 255"
proof -
  have "(ucast (w AND 0xff) :: 8 word) \<noteq> 0"
    using assms by (simp add: ucast_low_byte_eq_0)
  then have "0 < unat (ucast (w AND 0xff) :: 8 word)"
    by (simp add: unat_gt_0)
  moreover have "unat (ucast (w AND 0xff) :: 8 word) < 2 ^ 8"
    using unsigned_less [of "ucast (w AND 0xff) :: 8 word", where 'a = nat] by simp
  ultimately show ?thesis by simp
qed

lemma grub_xhci_hubports_zero_field:
  "le32 (mem s) (cap_regs x + 4) = 0 \<Longrightarrow>
   max_ports (fst (snd (grub_xhci_hubports P x s))) = 0
   \<and> max_device_slots (fst (snd (grub_xhci_hubports P x s))) = 0"
  by (simp add: grub_xhci_hubports_eq)

text \<open>The preboot hooks leave the machine, the registry included, as it was.\<close>

lemma preboot_hooks_eq:
  "grub_xhci_restore_hw s = (GRUB_ERR_NONE, s) \<and> grub_xhci_fini_hw s = (GRUB_ERR_NONE, s)"
  by (simp add: grub_xhci_restore_hw_def grub_xhci_fini_hw_def restore_hw_loop_eq
      fini_hw_loop_eq)

subsection \<open>The concrete machine\<close>

lemma example_platform_simps:
  "GRUB_PCI_REG_CLASS example_platform = 0x08"
  "GRUB_PCI_REG_ADDRESS_REG0 example_platform = 0x10"
  "GRUB_PCI_REG_ADDRESS_REG1 example_platform = 0x14"
  "GRUB_PCI_REG_COMMAND example_platform = 0x04"
  "GRUB_PCI_ADDR_MEM_TYPE_MASK example_platform = 0x06"
  "GRUB_PCI_ADDR_MEM_TYPE_32 example_platform = 0x00"
  "GRUB_PCI_ADDR_MEM_MASK example_platform = NOT 0xf"
  "GRUB_PCI_COMMAND_MEM_ENABLED example_platform = 0x0002"
  "GRUB_PCI_COMMAND_BUS_MASTER example_platform = 0x0004"
  "grub_pci_device_map_range example_platform = (\<lambda>a. a)"
  "grub_malloc example_platform = (\<lambda>blocks. 0x00100000 + 0x100 * of_nat (length blocks))"
  "max_ports (uninitialised example_platform) = 0"
  "max_device_slots (uninitialised example_platform) = 0"
  by (simp_all add: example_platform_def)

lemma example_machine_simps:
  "mem example_machine = example_mem"
  "pci_conf example_machine = example_pci_conf"
  "trace example_machine = []"
  "detect_dev_state example_machine = 0"
  "mem halted_machine = example_mem(0xFEB00020 := 0x00, 0xFEB00024 := 0x01)"
  by (simp_all add: example_machine_def halted_machine_def)

lemma example_xhci_simps:
  "oper_regs example_xhci = 0xFEB00020"
  "cap_regs example_xhci = 0xFEB00000"
  "max_ports example_xhci = 4"
  by (simp_all add: example_xhci_def)

lemma example_pci_conf_simps:
  "example_pci_conf dev_above_4G
     = (\<lambda>a. 0)(0x09 := 0x30, 0x0a := 0x03, 0x0b := 0x0c, 0x10 := 0x04, 0x14 := 0x01)"
  "example_pci_conf dev_unmapped = (\<lambda>a. 0)(0x09 := 0x30, 0x0a := 0x03, 0x0b := 0x0c)"
  "example_pci_conf dev_mapped
     = (\<lambda>a. 0)(0x09 := 0x30, 0x0a := 0x03, 0x0b := 0x0c, 0x12 := 0xB0, 0x13 := 0xFE)"
  by (simp_all add: example_pci_conf_def dev_above_4G_def dev_unmapped_def dev_mapped_def)

lemma example_class_codes:
  "drop_bit 8 (pci_config_read dev_above_4G 0x08 example_machine) = 0x0c0330"
  "drop_bit 8 (pci_config_read dev_unmapped 0x08 example_machine) = 0x0c0330"
  "drop_bit 8 (pci_config_read dev_mapped 0x08 example_machine) = 0x0c0330"
  by (simp_all add: pci_config_read_def grub_pci_read_def example_machine_def
      example_pci_conf_simps le32_def bytes32_def)

lemma example_bars:
  "grub_pci_read dev_above_4G 0x10 example_machine = 0x00000004"
  "grub_pci_read dev_above_4G 0x14 example_machine = 0x00000001"
  "grub_pci_read dev_unmapped 0x10 example_machine = 0"
  "grub_pci_read dev_unmapped 0x14 example_machine = 0"
  "grub_pci_read dev_mapped 0x10 example_machine = 0xFEB00000"
  "grub_pci_read dev_mapped 0x14 example_machine = 0"
  by (simp_all add: grub_pci_read_def example_machine_def example_pci_conf_simps
      le32_def bytes32_def)

text \<open>
  On the example machine \<^verbatim>\<open>grub_xhci_init\<close> locates the blocks of \<open>example_xhci\<close> and
  leaves the two counts as the block had them; \<^verbatim>\<open>grub_xhci_hubports\<close> then fills them in.
\<close>

lemma example_attach_xhci:
  "fst (snd example_attach) = example_xhci\<lparr>max_device_slots := 0, max_ports := 0\<rparr>"
  by (simp add: example_attach_def grub_xhci_init_eq example_platform_def example_xhci_def
      example_machine_def example_mem_def le32_def bytes32_def DBOFF_MASK_def RTSOFF_MASK_def)

lemma example_attach_mem: "mem (snd (snd example_attach)) = example_mem"
  by (simp add: example_attach_def grub_xhci_init_eq example_machine_def)

lemma example_hubports:
  "fst (snd (grub_xhci_hubports example_platform
        (example_xhci\<lparr>max_device_slots := 0, max_ports := 0\<rparr>) example_machine))
     = example_xhci"
  by (simp add: grub_xhci_hubports_eq example_xhci_def example_machine_def
      example_mem_def le32_def bytes32_def)

text \<open>
  The function with the BAR at 0xFEB00000 is attached: one block is allocated and one
  controller is registered.
\<close>

lemma grub_xhci_pci_iter_attaches:
  "fst (grub_xhci_pci_iter example_platform dev_mapped example_machine) = 0
   \<and> allocated (snd (grub_xhci_pci_iter example_platform dev_mapped example_machine))
       = [0x00100000]
   \<and> map fst (xhci_list (snd (grub_xhci_pci_iter example_platform dev_mapped example_machine)))
       = [0x00100000]"
  by (simp add: grub_xhci_pci_iter_def example_class_codes example_bars example_platform_simps
      Let_def grub_xhci_init_eq grub_pci_write_word_def GRUB_XHCI_ADDR_MEM_MASK_def split_def)
    (simp add: example_machine_def)

text \<open>
  After the attach the registry holds the controller that \<^verbatim>\<open>grub_xhci_init\<close> left, at the
  address of its block.
\<close>

lemma example_attached_registry:
  "xhci_list example_attached = [(0x00100000, fst (snd example_attach))]"
  by (simp add: example_attached_def grub_xhci_pci_iter_def example_class_codes example_bars
      example_platform_simps Let_def grub_xhci_init_eq grub_pci_write_word_def
      GRUB_XHCI_ADDR_MEM_MASK_def split_def example_attach_def)
    (simp add: example_machine_def example_platform_def)

lemma example_attached_mem: "mem example_attached = example_mem"
  by (simp add: example_attached_def grub_xhci_pci_iter_def example_class_codes example_bars
      example_platform_simps Let_def grub_xhci_init_eq grub_pci_write_word_def
      GRUB_XHCI_ADDR_MEM_MASK_def split_def)
    (simp add: example_machine_def)

lemma example_attached_node:
  "controller_at example_attached 0x00100000 = Some (fst (snd example_attach))"
  by (simp add: controller_at_def example_attached_registry)

section \<open>The claims\<close>

subsection \<open>Register accessors\<close>

text \<open>
  Claim C7. For every register block base, offset and value, each read accessor
  (\<^verbatim>\<open>mmio_read8\<close>, \<^verbatim>\<open>mmio_read16\<close>, \<^verbatim>\<open>mmio_read32\<close>) performs exactly one load, at
  base + offset, and returns the little-endian value stored there, in host order; each
  write accessor (\<^verbatim>\<open>mmio_write8\<close>, \<^verbatim>\<open>mmio_write16\<close>, \<^verbatim>\<open>mmio_write32\<close>) performs exactly one
  store, at base + offset, of the little-endian bytes of the value. This holds on a host
  of either byte order. The result of a read is a function of the device memory alone and
  an accessor changes nothing in the state but the device memory (writes) and the trace:
  no value is cached.
\<close>

theorem mmio_accessors_single_access:
  "mmio_read8 P (base + off) s
     = (mem s (base + off), s\<lparr>trace := trace s @ [Load 1 (base + off)]\<rparr>)
   \<and> mmio_read16 P (base + off) s
     = (le16 (mem s) (base + off), s\<lparr>trace := trace s @ [Load 2 (base + off)]\<rparr>)
   \<and> mmio_read32 P (base + off) s
     = (le32 (mem s) (base + off), s\<lparr>trace := trace s @ [Load 4 (base + off)]\<rparr>)
   \<and> mmio_write8 P (base + off) v8 s
     = s\<lparr>mem := (mem s)(base + off := v8), trace := trace s @ [Store 1 (base + off)]\<rparr>
   \<and> mmio_write16 P (base + off) v16 s
     = s\<lparr>mem := store_bytes (mem s) (base + off) (le_bytes16 v16),
         trace := trace s @ [Store 2 (base + off)]\<rparr>
   \<and> mmio_write32 P (base + off) v32 s
     = s\<lparr>mem := store_bytes (mem s) (base + off) (le_bytes32 v32),
         trace := trace s @ [Store 4 (base + off)]\<rparr>"
  by (simp only: mmio_read8_eq mmio_read16_eq mmio_read32_eq
      mmio_write8_eq mmio_write16_eq mmio_write32_eq simp_thms)

subsection \<open>Port register sets\<close>

text \<open>
  Claim C10. For every port number greater than \<^verbatim>\<open>max_ports\<close>, \<^verbatim>\<open>xhci_read_portrs\<close>
  performs no access to the register window (the machine state is returned as it was) and
  returns 0xFFFFFFFF, whatever the register type; for every port in [1, max_ports] it
  performs one 32-bit load and returns the register at
  operational base + 0x400 + 0x10 * (port - 1) + type offset.
\<close>

theorem xhci_read_portrs_in_range:
  "(ucast (max_ports xhci) < port \<longrightarrow>
      xhci_read_portrs P xhci port type s = (0xFFFFFFFF, s))
   \<and> (1 \<le> port \<and> port \<le> ucast (max_ports xhci) \<longrightarrow>
      xhci_read_portrs P xhci port type s =
        (le32 (mem s) (oper_regs xhci + 0x400 + 0x10 * (port - 1) + portrs_offset type),
         s\<lparr>trace := trace s @
            [Load 4 (oper_regs xhci + 0x400 + 0x10 * (port - 1) + portrs_offset type)]\<rparr>))"
  by (simp add: xhci_read_portrs_def mmio_read32_eq not_less[symmetric])

text \<open>
  On the example controller with four ports: port 5 is refused without an access, port 1
  is read at 0xFEB00420.
\<close>

theorem xhci_read_portrs_in_range_witness:
  "ucast (max_ports example_xhci) < (5 :: 32 word)
   \<and> xhci_read_portrs example_platform example_xhci 5 PORTSC example_machine
        = (0xFFFFFFFF, example_machine)
   \<and> (1 :: 32 word) \<le> 1 \<and> (1 :: 32 word) \<le> ucast (max_ports example_xhci)
   \<and> xhci_read_portrs example_platform example_xhci 1 PORTSC example_machine
        = (0x00000001, example_machine\<lparr>trace := [Load 4 0xFEB00420]\<rparr>)"
  using xhci_read_portrs_in_range [of example_xhci 5 example_platform PORTSC example_machine]
    xhci_read_portrs_in_range [of example_xhci 1 example_platform PORTSC example_machine]
  by (simp add: example_xhci_def example_machine_def example_mem_def le32_def bytes32_def)

subsection \<open>Halt\<close>

text \<open>
  Claim C1. Halt is a no-op returning success when USBSTS.HCH is already set; otherwise it
  clears USBCMD.RS and polls USBSTS.HCH until it is set, with a timeout error after the
  bound. The first half holds of \<^verbatim>\<open>grub_xhci_halt\<close>, which returns success without an
  access on every input. The second half does not: on the example machine the controller
  is running (HCH clear, RS set), and \<^verbatim>\<open>grub_xhci_halt\<close> returns
  \<^verbatim>\<open>GRUB_USB_ERR_NONE\<close> with the machine as it was, RS still set, and no register read or
  written.
\<close>

theorem grub_xhci_halt_leaves_controller_running:
  "le32 (mem example_machine) (oper_regs example_xhci + GRUB_XHCI_OPER_USBSTS)
       AND GRUB_XHCI_USBSTS_HCH = 0
   \<and> grub_xhci_halt example_xhci example_machine = (GRUB_USB_ERR_NONE, example_machine)
   \<and> le32 (mem (snd (grub_xhci_halt example_xhci example_machine)))
         (oper_regs example_xhci + GRUB_XHCI_OPER_USBCMD)
       AND GRUB_XHCI_OPER_USBCMD_RUNSTOP = GRUB_XHCI_OPER_USBCMD_RUNSTOP
   \<and> trace (snd (grub_xhci_halt example_xhci example_machine)) = []"
  by (simp add: grub_xhci_halt_def example_machine_simps example_xhci_simps example_mem_def
      le32_def bytes32_def GRUB_XHCI_OPER_USBSTS_def GRUB_XHCI_OPER_USBCMD_def
      GRUB_XHCI_USBSTS_HCH_def GRUB_XHCI_OPER_USBCMD_RUNSTOP_def)

subsection \<open>Port detection and port reset\<close>

text \<open>
  Claim C2. For a port in [1, max_ports] whose port-status register has the
  current-connect-status bit clear, detect reports no device (speed NONE) and clears the
  per-port reset memory. On the example machine port 2 is empty (PORTSC is 0), and
  \<^verbatim>\<open>grub_xhci_detect_dev\<close> reads the register, changes no register, and reports
  \<^verbatim>\<open>GRUB_USB_SPEED_SUPER\<close> with \<^verbatim>\<open>*changed = 1\<close>.
\<close>

theorem grub_xhci_detect_dev_on_empty_port:
  "le32 (mem example_machine) (oper_regs example_xhci + 0x400 + 0x10 * (2 - 1))
       AND GRUB_XHCI_PORTSC_CCS = 0
   \<and> fst (grub_xhci_detect_dev example_platform example_xhci 2 0 example_machine)
       = GRUB_USB_SPEED_SUPER
   \<and> fst (snd (grub_xhci_detect_dev example_platform example_xhci 2 0 example_machine)) = 1
   \<and> mem (snd (snd (grub_xhci_detect_dev example_platform example_xhci 2 0 example_machine)))
       = mem example_machine"
  by (simp add: grub_xhci_detect_dev_def grub_millisleep_def Let_def split_def
      xhci_read_portrs_def mmio_read32_eq example_xhci_simps example_machine_simps
      example_mem_def le32_def bytes32_def GRUB_XHCI_PORTSC_CCS_def)

text \<open>
  Claim C3. After a successful port reset (\<^verbatim>\<open>grub_xhci_portstatus\<close> with enable set
  returning success or not-handled) the reset bit reads clear and either the port is
  enabled or its ownership has been ceded and not-handled is reported. On the example
  machine port 1 has a device connected and is not enabled (PORTSC is 1);
  \<^verbatim>\<open>grub_xhci_portstatus\<close> with enable set returns \<^verbatim>\<open>GRUB_USB_ERR_NONE\<close>, and the register
  still reads 1 afterwards: neither enabled bit is set and the owner bit is clear.
\<close>

theorem grub_xhci_portstatus_leaves_port_disabled:
  "grub_xhci_portstatus example_xhci 1 1 example_machine = (GRUB_USB_ERR_NONE, example_machine)
   \<and> le32 (mem (snd (grub_xhci_portstatus example_xhci 1 1 example_machine)))
         (oper_regs example_xhci + 0x400 + 0x10 * (1 - 1)) = 0x00000001
   \<and> (0x00000001 :: 32 word) AND GRUB_XHCI_PORTSC_PED = 0
   \<and> (0x00000001 :: 32 word) AND GRUB_XHCI_PORT_ENABLED = 0
   \<and> (0x00000001 :: 32 word) AND GRUB_XHCI_PORT_OWNER = 0"
  by (simp add: grub_xhci_portstatus_def example_xhci_simps example_machine_simps
      example_mem_def le32_def bytes32_def GRUB_XHCI_PORTSC_PED_def
      GRUB_XHCI_PORT_ENABLED_def GRUB_XHCI_PORT_OWNER_def)

subsection \<open>Ownership handover\<close>

text \<open>
  Claim C4. Running the ownership handover twice leaves the OS-owned bit set and the
  BIOS-owned bit clear after each run, for every initial state. On the example machine the
  legacy-support capability lies at dword 0x200 of the register window and reads
  0x00010001 (capability 1, BIOS-owned set, OS-owned clear). After one run of
  \<^verbatim>\<open>grub_xhci_init\<close> and after a second run it reads the same: BIOS-owned is still set and
  OS-owned still clear, and PCI configuration space is untouched.
\<close>

theorem grub_xhci_init_keeps_bios_ownership:
  "cap_regs example_xhci
       + 4 * drop_bit 16 (le32 (mem example_machine) (cap_regs example_xhci + 0x10))
     = 0xFEB00800
   \<and> le32 (mem example_machine) 0xFEB00800 = 0x00010001
   \<and> le32 (mem (snd (snd example_attach))) 0xFEB00800 = 0x00010001
   \<and> le32 (mem (snd (snd example_attach_twice))) 0xFEB00800 = 0x00010001
   \<and> pci_conf (snd (snd example_attach_twice)) = pci_conf example_machine
   \<and> (0x00010001 :: 32 word) AND GRUB_XHCI_USBLEGSUP_BIOS_OWNED = GRUB_XHCI_USBLEGSUP_BIOS_OWNED
   \<and> (0x00010001 :: 32 word) AND GRUB_XHCI_USBLEGSUP_OS_OWNED = 0"
  by (simp add: example_attach_twice_def example_attach_def grub_xhci_init_frame
      example_xhci_simps example_machine_simps example_mem_def le32_def bytes32_def
      GRUB_XHCI_USBLEGSUP_BIOS_OWNED_def GRUB_XHCI_USBLEGSUP_OS_OWNED_def)

subsection \<open>Transfer completion\<close>

text \<open>
  Claim C5. If the halted-status bit is set when a transfer is polled, the poll reports a
  not-running error at once, without looking at ring state. On the halted example machine
  (USBSTS.HCH set) \<^verbatim>\<open>grub_xhci_check_transfer\<close> looks at nothing, and returns
  \<^verbatim>\<open>GRUB_USB_ERR_NONE\<close>, for every transfer.
\<close>

theorem grub_xhci_check_transfer_on_halted_controller:
  "le32 (mem halted_machine) (oper_regs example_xhci + GRUB_XHCI_OPER_USBSTS)
       AND GRUB_XHCI_USBSTS_HCH = GRUB_XHCI_USBSTS_HCH
   \<and> grub_xhci_check_transfer example_xhci transfer halted_machine
       = (GRUB_USB_ERR_NONE, halted_machine)"
  by (simp add: grub_xhci_check_transfer_def example_xhci_simps example_machine_simps
      example_mem_def le32_def bytes32_def GRUB_XHCI_OPER_USBSTS_def GRUB_XHCI_USBSTS_HCH_def)

subsection \<open>The controller instance\<close>

text \<open>
  Claim C8, as stated: after initialisation every operation leaves the four block bases,
  the port count and the slot count unchanged, and both counts lie in 1 to 255. This fails
  on the example machine. After the attach the registry node at 0x00100000 is the
  controller as \<^verbatim>\<open>grub_xhci_init\<close> left it: the function does not touch the counts, so
  on the zero-filled block the port count is 0, outside 1 to 255.
  \<^verbatim>\<open>grub_xhci_hubports\<close> on that node then changes both counts in the registry, to 4
  and 32.
\<close>

theorem hubports_changes_port_count:
  "controller_at example_attached 0x00100000 = Some (fst (snd example_attach))
   \<and> \<not> (1 \<le> unat (max_ports (fst (snd example_attach)))
          \<and> unat (max_ports (fst (snd example_attach))) \<le> 255)
   \<and> run_op example_platform Op_hubports 0x00100000 example_attached
       = Some (apply_op example_platform Op_hubports 0x00100000 (fst (snd example_attach))
                 example_attached)
   \<and> controller_at
         (apply_op example_platform Op_hubports 0x00100000 (fst (snd example_attach))
            example_attached) 0x00100000
       = Some example_xhci
   \<and> max_ports example_xhci \<noteq> max_ports (fst (snd example_attach))
   \<and> max_device_slots example_xhci \<noteq> max_device_slots (fst (snd example_attach))"
proof -
  have node: "controller_at example_attached 0x00100000 = Some (fst (snd example_attach))"
    by (rule example_attached_node)
  have run: "run_op example_platform Op_hubports 0x00100000 example_attached
       = Some (apply_op example_platform Op_hubports 0x00100000 (fst (snd example_attach))
                 example_attached)"
    using node by (rule run_op_Some)
  have after: "controller_at
         (apply_op example_platform Op_hubports 0x00100000 (fst (snd example_attach))
            example_attached) 0x00100000
       = Some example_xhci"
    using apply_op_hubports [OF node, of example_platform "0x00100000"]
    by (simp del: apply_op.simps
        add: example_attached_mem example_attach_xhci example_xhci_def example_mem_def
          le32_def bytes32_def)
  have before: "max_ports (fst (snd example_attach)) = 0"
    "max_device_slots (fst (snd example_attach)) = 0"
    by (simp_all add: example_attach_xhci)
  show ?thesis
    using node run after before by (simp del: apply_op.simps add: example_xhci_def)
qed

text \<open>
  Claim C8, amended. Let the registry node at \<open>p\<close> be a controller as \<^verbatim>\<open>grub_xhci_init\<close>
  left it for the mapped base \<open>base\<close>. Let a sequence \<open>calls\<close> of driver operations run,
  each on a registered controller (this one or another), and after it any further sequence
  \<open>later\<close>. Every call returns. After \<open>calls\<close>, and still after \<open>later\<close>, the four
  block bases of the node are the values that \<^verbatim>\<open>grub_xhci_init\<close> computed from the base,
  CAPLENGTH, DBOFF and RTSOFF. If \<open>calls\<close> holds no \<^verbatim>\<open>grub_xhci_hubports\<close> on the node,
  the port count and the slot count are what the block held before \<^verbatim>\<open>grub_xhci_init\<close>.
  If it holds one, the counts are bits 31:24 and bits 7:0 of HCSPARAMS1, and \<open>later\<close>
  leaves them unchanged whatever it holds: from the first \<^verbatim>\<open>grub_xhci_hubports\<close> on the
  counts are immutable (no operation writes device memory, so HCSPARAMS1 reads the same
  every time). They then lie in 1 to 255 when the two fields of HCSPARAMS1 are not zero;
  the driver does not check that. The preboot hooks change nothing.
\<close>

theorem driver_ops_keep_register_blocks:
  assumes node: "controller_at s p = Some (fst (snd (grub_xhci_init P x0 base s0)))"
      and targets: "\<forall>call \<in> set (calls @ later). controller_at s (fst call) \<noteq> None"
  shows "\<exists>s1 x1 s2 x2.
       run_calls P calls s = Some s1 \<and> controller_at s1 p = Some x1
     \<and> run_calls P later s1 = Some s2 \<and> controller_at s2 p = Some x2
     \<and> cap_regs x1 = base
     \<and> oper_regs x1 = base + ucast (mem s0 base)
     \<and> db_regs x1 = base + (le32 (mem s0) (base + 0x14) AND DBOFF_MASK)
     \<and> run_regs x1 = base + (le32 (mem s0) (base + 0x18) AND RTSOFF_MASK)
     \<and> cap_regs x2 = cap_regs x1 \<and> oper_regs x2 = oper_regs x1
     \<and> db_regs x2 = db_regs x1 \<and> run_regs x2 = run_regs x1
     \<and> ((p, Op_hubports) \<notin> set calls \<longrightarrow>
           max_ports x1 = max_ports x0 \<and> max_device_slots x1 = max_device_slots x0)
     \<and> ((p, Op_hubports) \<in> set calls \<longrightarrow>
           max_ports x1 = ucast (drop_bit 24 (le32 (mem s) (base + 0x04)) AND 0xff)
         \<and> max_device_slots x1 = ucast (le32 (mem s) (base + 0x04) AND 0xff)
         \<and> max_ports x2 = max_ports x1 \<and> max_device_slots x2 = max_device_slots x1)
     \<and> ((p, Op_hubports) \<in> set calls
           \<and> drop_bit 24 (le32 (mem s) (base + 0x04)) AND 0xff \<noteq> 0
           \<and> le32 (mem s) (base + 0x04) AND 0xff \<noteq> 0 \<longrightarrow>
           1 \<le> unat (max_ports x2) \<and> unat (max_ports x2) \<le> 255
         \<and> 1 \<le> unat (max_device_slots x2) \<and> unat (max_device_slots x2) \<le> 255)
     \<and> snd (grub_xhci_restore_hw s2) = s2 \<and> snd (grub_xhci_fini_hw s2) = s2"
proof -
  let ?x = "fst (snd (grub_xhci_init P x0 base s0))"
  have init: "cap_regs ?x = base" "oper_regs ?x = base + ucast (mem s0 base)"
    "db_regs ?x = base + (le32 (mem s0) (base + 0x14) AND DBOFF_MASK)"
    "run_regs ?x = base + (le32 (mem s0) (base + 0x18) AND RTSOFF_MASK)"
    "max_ports ?x = max_ports x0" "max_device_slots ?x = max_device_slots x0"
    by (simp_all add: grub_xhci_init_eq)
  have t1: "\<forall>call \<in> set calls. controller_at s (fst call) \<noteq> None"
    using targets by simp
  obtain s1 x1 where first: "run_calls P calls s = Some s1" "mem s1 = mem s"
    "controller_at s1 p = Some x1"
    "cap_regs x1 = cap_regs ?x" "oper_regs x1 = oper_regs ?x"
    "run_regs x1 = run_regs ?x" "db_regs x1 = db_regs ?x"
    "max_ports x1 = (if (p, Op_hubports) \<in> set calls
          then ucast (drop_bit 24 (le32 (mem s) (cap_regs ?x + 4)) AND 0xff) else max_ports ?x)"
    "max_device_slots x1 = (if (p, Op_hubports) \<in> set calls
          then ucast (le32 (mem s) (cap_regs ?x + 4) AND 0xff) else max_device_slots ?x)"
    "\<forall>r. controller_at s r \<noteq> None \<longrightarrow> controller_at s1 r \<noteq> None"
    using run_calls_node [OF node t1, of P] by blast
  have t2: "\<forall>call \<in> set later. controller_at s1 (fst call) \<noteq> None"
    using targets first(10) by simp
  obtain s2 x2 where second: "run_calls P later s1 = Some s2" "mem s2 = mem s1"
    "controller_at s2 p = Some x2"
    "cap_regs x2 = cap_regs x1" "oper_regs x2 = oper_regs x1"
    "run_regs x2 = run_regs x1" "db_regs x2 = db_regs x1"
    "max_ports x2 = (if (p, Op_hubports) \<in> set later
          then ucast (drop_bit 24 (le32 (mem s1) (cap_regs x1 + 4)) AND 0xff) else max_ports x1)"
    "max_device_slots x2 = (if (p, Op_hubports) \<in> set later
          then ucast (le32 (mem s1) (cap_regs x1 + 4) AND 0xff) else max_device_slots x1)"
    using run_calls_node [OF first(3) t2, of P] by blast
  have counts1: "(p, Op_hubports) \<notin> set calls \<longrightarrow>
      max_ports x1 = max_ports x0 \<and> max_device_slots x1 = max_device_slots x0"
    using first(8,9) init(5,6) by simp
  have counts2: "(p, Op_hubports) \<in> set calls \<longrightarrow>
        max_ports x1 = ucast (drop_bit 24 (le32 (mem s) (base + 0x04)) AND 0xff)
      \<and> max_device_slots x1 = ucast (le32 (mem s) (base + 0x04) AND 0xff)
      \<and> max_ports x2 = max_ports x1 \<and> max_device_slots x2 = max_device_slots x1"
    using first(2,4,8,9) second(8,9) init(1) by simp
  have range: "(p, Op_hubports) \<in> set calls
        \<and> drop_bit 24 (le32 (mem s) (base + 0x04)) AND 0xff \<noteq> 0
        \<and> le32 (mem s) (base + 0x04) AND 0xff \<noteq> 0 \<longrightarrow>
        1 \<le> unat (max_ports x2) \<and> unat (max_ports x2) \<le> 255
      \<and> 1 \<le> unat (max_device_slots x2) \<and> unat (max_device_slots x2) \<le> 255"
    using counts2 count_range [of "drop_bit 24 (le32 (mem s) (base + 0x04))"]
      count_range [of "le32 (mem s) (base + 0x04)"]
    by simp
  have hooks: "snd (grub_xhci_restore_hw s2) = s2" "snd (grub_xhci_fini_hw s2) = s2"
    by (simp_all add: preboot_hooks_eq)
  show ?thesis
    using first(1,3,4,5,6,7) second(1,3,4,5,6,7) init(1,2,3,4) counts1 counts2 range hooks
    by (intro exI [of _ s1] exI [of _ x1] exI [of _ s2] exI [of _ x2]) simp
qed

text \<open>
  On the example machine after the attach: port detection and \<^verbatim>\<open>grub_xhci_hubports\<close>,
  then a port reset request, \<^verbatim>\<open>grub_xhci_hubports\<close> again and a halt. The blocks stay
  where \<^verbatim>\<open>grub_xhci_init\<close> put them, and the counts are 4 and 32 after the first
  sequence and after the second.
\<close>

theorem driver_ops_keep_register_blocks_witness:
  "controller_at example_attached 0x00100000 = Some (fst (snd example_attach))
   \<and> (\<exists>s1 x1 s2 x2.
        run_calls example_platform
          [(0x00100000, Op_detect_dev 2 0), (0x00100000, Op_hubports)] example_attached = Some s1
      \<and> controller_at s1 0x00100000 = Some x1
      \<and> run_calls example_platform
          [(0x00100000, Op_portstatus 1 1), (0x00100000, Op_hubports), (0x00100000, Op_halt)] s1
          = Some s2
      \<and> controller_at s2 0x00100000 = Some x2
      \<and> cap_regs x2 = 0xFEB00000 \<and> oper_regs x2 = 0xFEB00020
      \<and> db_regs x2 = 0xFEB02000 \<and> run_regs x2 = 0xFEB01000
      \<and> max_ports x1 = 4 \<and> max_device_slots x1 = 32
      \<and> max_ports x2 = 4 \<and> max_device_slots x2 = 32
      \<and> 1 \<le> unat (max_ports x2) \<and> unat (max_ports x2) \<le> 255)"
proof -
  have node: "controller_at example_attached 0x00100000
      = Some (fst (snd (grub_xhci_init example_platform (uninitialised example_platform)
                0xFEB00000 example_machine)))"
    by (simp add: example_attached_node example_attach_def [symmetric])
  have targets: "\<forall>call \<in> set ([(0x00100000, Op_detect_dev 2 0), (0x00100000, Op_hubports)]
        @ [(0x00100000, Op_portstatus 1 1), (0x00100000, Op_hubports), (0x00100000, Op_halt)]).
      controller_at example_attached (fst call) \<noteq> None"
    by (simp add: example_attached_node)
  have hcs: "le32 (mem example_attached) 0xFEB00004 = 0x04000020"
    by (simp add: example_attached_mem example_mem_def le32_def bytes32_def)
  have regs: "mem example_machine 0xFEB00000 = 0x20"
    "le32 (mem example_machine) 0xFEB00014 AND DBOFF_MASK = 0x2000"
    "le32 (mem example_machine) 0xFEB00018 AND RTSOFF_MASK = 0x1000"
    by (simp_all add: example_machine_simps example_mem_def le32_def bytes32_def
        DBOFF_MASK_def RTSOFF_MASK_def)
  show ?thesis
    using driver_ops_keep_register_blocks [OF node targets] example_attached_node
    apply (elim exE conjE)
    subgoal for s1 x1 s2 x2
      apply (intro conjI)
       apply assumption
      apply (rule exI [of _ s1], rule exI [of _ x1], rule exI [of _ s2], rule exI [of _ x2])
      apply (simp add: hcs regs del: run_calls.simps)
      done
    done
qed

subsection \<open>Attach\<close>

text \<open>
  Claim C9. For every device whose register base lies above 4 GiB (the BAR type is not the
  32-bit one and the high dword is not zero) or whose base address is zero,
  \<^verbatim>\<open>grub_xhci_pci_iter\<close> returns 0 with the whole machine as it was: no block is allocated,
  no controller is created or entered in \<^verbatim>\<open>xhci_list\<close>, and the command register of the
  device is not written.
\<close>

theorem grub_xhci_pci_iter_unsupported_base:
  assumes "(grub_pci_read dev (GRUB_PCI_REG_ADDRESS_REG0 P) s AND GRUB_PCI_ADDR_MEM_TYPE_MASK P
              \<noteq> GRUB_PCI_ADDR_MEM_TYPE_32 P
            \<and> grub_pci_read dev (GRUB_PCI_REG_ADDRESS_REG1 P) s \<noteq> 0)
         \<or> grub_pci_read dev (GRUB_PCI_REG_ADDRESS_REG0 P) s AND GRUB_PCI_ADDR_MEM_MASK P = 0"
  shows "grub_xhci_pci_iter P dev s = (0, s)
       \<and> xhci_list (snd (grub_xhci_pci_iter P dev s)) = xhci_list s
       \<and> allocated (snd (grub_xhci_pci_iter P dev s)) = allocated s"
proof -
  have "grub_xhci_pci_iter P dev s = (0, s)"
    using assms by (auto simp add: grub_xhci_pci_iter_def Let_def)
  then show ?thesis by simp
qed

text \<open>
  On the example machine both unsupported functions are of the xHCI class, so it is the
  test of the base that ends the attach: one has a 64-bit BAR with high dword 1, the
  other a BAR whose address bits are zero.
\<close>

theorem grub_xhci_pci_iter_unsupported_base_witness:
  "drop_bit 8 (pci_config_read dev_above_4G 0x08 example_machine) = 0x0c0330
   \<and> grub_pci_read dev_above_4G 0x10 example_machine AND 0x06 \<noteq> 0x00
   \<and> grub_pci_read dev_above_4G 0x14 example_machine \<noteq> 0
   \<and> grub_xhci_pci_iter example_platform dev_above_4G example_machine = (0, example_machine)
   \<and> drop_bit 8 (pci_config_read dev_unmapped 0x08 example_machine) = 0x0c0330
   \<and> grub_pci_read dev_unmapped 0x10 example_machine AND NOT 0xf = 0
   \<and> grub_xhci_pci_iter example_platform dev_unmapped example_machine = (0, example_machine)"
  using grub_xhci_pci_iter_unsupported_base [of dev_above_4G example_platform example_machine]
    grub_xhci_pci_iter_unsupported_base [of dev_unmapped example_platform example_machine]
  by (simp add: example_class_codes example_bars example_platform_simps)

end
